theory Spec2Isabelle
  imports
    Main
    "HOL-Library.Word"
    "HOL-Library.Char_ord"
    "HOL-Library.List_Lexorder"
begin

section \<open>Python values, text and bytes\<close>

text \<open>
  The private client of \<^verbatim>\<open>apexpro/http_private.py\<close> is modelled function by function.
  Python text is a \<^typ>\<open>string\<close> (code points 0 to 255), Python \<^verbatim>\<open>bytes\<close> is a list
  of 8-bit words. Text is ordered by code point, position by position, which is
  the order of \<^verbatim>\<open>sorted\<close> on \<^verbatim>\<open>str\<close> keys.

  The values that flow through request parameters are the scalars \<^verbatim>\<open>None\<close>,
  \<^verbatim>\<open>str\<close>, \<^verbatim>\<open>int\<close> and \<^verbatim>\<open>bool\<close>; floating point values are not modelled.
\<close>

type_synonym bytes = "8 word list"

datatype pyval = PNone | PStr string | PInt int | PBool bool

text \<open>Truthiness, and \<^verbatim>\<open>a or b\<close>, which yields \<^verbatim>\<open>a\<close> when it is truthy.\<close>

fun truthy :: "pyval \<Rightarrow> bool" where
  "truthy PNone = False"
| "truthy (PStr s) = (s \<noteq> [])"
| "truthy (PInt i) = (i \<noteq> 0)"
| "truthy (PBool b) = b"

definition py_or :: "pyval \<Rightarrow> pyval \<Rightarrow> pyval" where
  "py_or a b = (if truthy a then a else b)"

text \<open>Decimal and hexadecimal digits of a natural number, most significant first.\<close>

definition digit_char :: "nat \<Rightarrow> char" where
  "digit_char d = (if d < 10 then char_of (48 + d) else char_of (87 + d))"

fun nat_digits :: "nat \<Rightarrow> nat \<Rightarrow> string" where
  "nat_digits b n =
     (if b < 2 \<or> n < b then [digit_char n]
      else nat_digits b (n div b) @ [digit_char (n mod b)])"

declare nat_digits.simps [simp del]

text \<open>\<^verbatim>\<open>str(i)\<close> and \<^verbatim>\<open>hex(i)\<close> of an integer.\<close>

definition str_int :: "int \<Rightarrow> string" where
  "str_int i = (if i < 0 then CHR ''-'' # nat_digits 10 (nat (- i)) else nat_digits 10 (nat i))"

definition hex :: "int \<Rightarrow> string" where
  "hex i = (if i < 0 then ''-0x'' @ nat_digits 16 (nat (- i)) else ''0x'' @ nat_digits 16 (nat i))"

text \<open>
  \<^verbatim>\<open>str(v)\<close>, which is also what \<^verbatim>\<open>'{value}'.format(value=v)\<close> inserts for these
  scalars.
\<close>

fun py_str :: "pyval \<Rightarrow> string" where
  "py_str PNone = ''None''"
| "py_str (PStr s) = s"
| "py_str (PInt i) = str_int i"
| "py_str (PBool b) = (if b then ''True'' else ''False'')"

text \<open>\<^verbatim>\<open>sep.join(parts)\<close>.\<close>

fun str_join :: "string \<Rightarrow> string list \<Rightarrow> string" where
  "str_join sep [] = []"
| "str_join sep [x] = x"
| "str_join sep (x # y # ys) = x @ sep @ str_join sep (y # ys)"

text \<open>
  \<^verbatim>\<open>s.upper()\<close> on the ASCII letters; the verbs this client passes are the literals
  \<^verbatim>\<open>'GET'\<close> and \<^verbatim>\<open>'POST'\<close>. Other characters are left as they are.
\<close>

definition upper_char :: "char \<Rightarrow> char" where
  "upper_char c =
     (let n = (of_char c :: nat) in if 97 \<le> n \<and> n \<le> 122 then char_of (n - 32) else c)"

definition upper :: "string \<Rightarrow> string" where
  "upper s = map upper_char s"

text \<open>\<^verbatim>\<open>s.encode(encoding='utf-8')\<close>: one byte below U+0080, two bytes from there to U+00FF.\<close>

definition utf8_char :: "char \<Rightarrow> bytes" where
  "utf8_char c =
     (let n = (of_char c :: nat) in
      if n < 128 then [of_nat n]
      else [of_nat (192 + n div 64), of_nat (128 + n mod 64)])"

definition encode_utf8 :: "string \<Rightarrow> bytes" where
  "encode_utf8 s = concat (map utf8_char s)"

text \<open>
  \<^verbatim>\<open>b.decode()\<close> on bytes below 0x80, where UTF-8 is ASCII. The only bytes this client
  decodes are base64 output, which stays in that range.
\<close>

definition decode :: "bytes \<Rightarrow> string option" where
  "decode bs = (if list_all (\<lambda>b. unat b < 128) bs then Some (map (\<lambda>b. char_of (unat b)) bs) else None)"

text \<open>\<^verbatim>\<open>base64.standard_b64encode\<close>: three bytes to four letters, padded with \<^verbatim>\<open>=\<close>.\<close>

definition b64_alphabet :: string where
  "b64_alphabet = ''ABCDEFGHIJKLMNOPQRSTUVWXYZabcdefghijklmnopqrstuvwxyz0123456789+/''"

definition b64_letter :: "nat \<Rightarrow> 8 word" where
  "b64_letter n = of_char (b64_alphabet ! (n mod 64))"

definition b64_pad :: "8 word" where
  "b64_pad = of_char CHR ''=''"

fun standard_b64encode :: "bytes \<Rightarrow> bytes" where
  "standard_b64encode [] = []"
| "standard_b64encode [a] =
     [b64_letter (unat a div 4), b64_letter ((unat a mod 4) * 16), b64_pad, b64_pad]"
| "standard_b64encode [a, b] =
     [b64_letter (unat a div 4), b64_letter ((unat a mod 4) * 16 + unat b div 16),
      b64_letter ((unat b mod 16) * 4), b64_pad]"
| "standard_b64encode (a # b # c # r) =
     [b64_letter (unat a div 4), b64_letter ((unat a mod 4) * 16 + unat b div 16),
      b64_letter ((unat b mod 16) * 4 + unat c div 64), b64_letter (unat c mod 64)]
     @ standard_b64encode r"

text \<open>\<^verbatim>\<open>HexBytes.hex()\<close>: \<^verbatim>\<open>0x\<close> and two lower-case digits for each byte.\<close>

definition bytes_hex :: "bytes \<Rightarrow> string" where
  "bytes_hex bs = ''0x'' @ concat (map (\<lambda>b. [digit_char (unat b div 16), digit_char (unat b mod 16)]) bs)"

subsection \<open>The built-in \<^verbatim>\<open>int(text, 16)\<close>\<close>

text \<open>
  \<^verbatim>\<open>int(s, 16)\<close> strips white space at both ends, reads an optional sign, an optional
  \<^verbatim>\<open>0x\<close> or \<^verbatim>\<open>0X\<close>, and then digits, where one underscore may stand between two
  digits and between the prefix and the first digit. Anything else raises
  \<^verbatim>\<open>ValueError\<close>, which is \<open>None\<close> here.
\<close>

definition is_space :: "char \<Rightarrow> bool" where
  "is_space c = ((of_char c :: nat) \<in> {9, 10, 11, 12, 13, 32, 133, 160})"

definition strip :: "string \<Rightarrow> string" where
  "strip s = rev (dropWhile is_space (rev (dropWhile is_space s)))"

definition hex_digit :: "char \<Rightarrow> nat option" where
  "hex_digit c =
     (let n = (of_char c :: nat) in
      if 48 \<le> n \<and> n \<le> 57 then Some (n - 48)
      else if 97 \<le> n \<and> n \<le> 102 then Some (n - 87)
      else if 65 \<le> n \<and> n \<le> 70 then Some (n - 55)
      else None)"

text \<open>The digits after the first one; \<open>acc\<close> is the value read so far.\<close>

fun more_digits :: "nat \<Rightarrow> string \<Rightarrow> nat option" where
  "more_digits acc [] = Some acc"
| "more_digits acc (c # cs) =
     (if c = CHR ''_'' then
        (case cs of
           [] \<Rightarrow> None
         | d # ds \<Rightarrow>
             (case hex_digit d of None \<Rightarrow> None | Some v \<Rightarrow> more_digits (16 * acc + v) ds))
      else
        (case hex_digit c of None \<Rightarrow> None | Some v \<Rightarrow> more_digits (16 * acc + v) cs))"

definition digits16 :: "string \<Rightarrow> nat option" where
  "digits16 s =
     (case s of
        [] \<Rightarrow> None
      | c # cs \<Rightarrow> (case hex_digit c of None \<Rightarrow> None | Some v \<Rightarrow> more_digits v cs))"

definition unsigned16 :: "string \<Rightarrow> nat option" where
  "unsigned16 s =
     (case s of
        z # x # r \<Rightarrow>
          if z = CHR ''0'' \<and> (x = CHR ''x'' \<or> x = CHR ''X'')
          then (case r of u # r' \<Rightarrow> if u = CHR ''_'' then digits16 r' else digits16 r
                        | [] \<Rightarrow> None)
          else digits16 s
      | _ \<Rightarrow> digits16 s)"

definition int_base16 :: "string \<Rightarrow> int option" where
  "int_base16 s =
     (case strip s of
        [] \<Rightarrow> None
      | c # cs \<Rightarrow>
          if c = CHR ''-'' then map_option (\<lambda>n. - int n) (unsigned16 cs)
          else if c = CHR ''+'' then map_option int (unsigned16 cs)
          else map_option int (unsigned16 (c # cs)))"

section \<open>The client and its collaborators\<close>

text \<open>
  The two action tags come from \<^verbatim>\<open>apexpro.constants\<close>; only their being two
  distinct constants matters here.
\<close>

datatype action = OFF_CHAIN_KEY_DERIVATION_ACTION | OFF_CHAIN_ONBOARDING_ACTION

text \<open>
  Exceptions, one constructor for each place that raises:
  \<^item> \<open>MissingStarkKey\<close>, \<open>MissingStarkKeyYCoordinate\<close>: the two \<^verbatim>\<open>ValueError\<close>s of
    \<^verbatim>\<open>register_user\<close>;
  \<^item> \<open>MalformedSignature\<close>: the \<^verbatim>\<open>ValueError\<close> of \<^verbatim>\<open>int(signature, 16)\<close>;
  \<^item> \<open>MalformedDigest\<close>: the \<^verbatim>\<open>ValueError\<close> of \<^verbatim>\<open>int(hashed_signature.hex(), 16)\<close>,
    which only an empty digest can raise;
  \<^item> \<open>MissingCredentials\<close>: subscripting \<^verbatim>\<open>api_key_credentials\<close> when it is \<^verbatim>\<open>None\<close>;
  \<^item> \<open>EncodingError\<close>: a failing \<^verbatim>\<open>decode\<close>;
  \<^item> \<open>SigningUnavailable\<close>, \<open>LibraryError\<close>, \<open>TransportError\<close>: whatever the wallet
    signer, the hashing and curve libraries, or the transport raise, passed on unchanged.
\<close>

datatype error =
    MissingStarkKey
  | MissingStarkKeyYCoordinate
  | MalformedSignature
  | MalformedDigest
  | MissingCredentials
  | EncodingError
  | SigningUnavailable string
  | LibraryError string
  | TransportError string

text \<open>A \<^verbatim>\<open>dict\<close> with text keys, as the list of its items in insertion order.\<close>

type_synonym params = "(string \<times> pyval) list"

record credentials =
  key :: string
  secret :: string
  passphrase :: string

text \<open>The keyword arguments of one \<^verbatim>\<open>_submit_request\<close> call.\<close>

record request =
  req_method :: string
  req_path :: string
  req_headers :: "params option"
  req_query :: params

text \<open>
  A response, as far as this file reads it: \<^verbatim>\<open>res.get('data')\<close> is \<^verbatim>\<open>None\<close> or holds
  the \<^verbatim>\<open>'user'\<close> and \<^verbatim>\<open>'account'\<close> entries.
\<close>

record response =
  res_data :: "(pyval \<times> pyval) option"

record client =
  endpoint :: string
  api_key_credentials :: "credentials option"
  stark_public_key :: pyval
  stark_public_key_y_coordinate :: pyval
  default_address :: pyval
  user :: pyval
  account :: pyval

text \<open>
  What the file imports or inherits and does not define: constants, the clock, the
  query-path helper, the digest and curve libraries, the two wallet signers and the
  transport. A collaborator that can raise returns the message on the left.
\<close>

record env =
  URL_SUFFIX :: string
  generate_now :: pyval
  generate_query_path :: "string \<Rightarrow> params \<Rightarrow> string"
  hmac_sha256 :: "bytes \<Rightarrow> bytes \<Rightarrow> bytes"
  solidityKeccak :: "string list \<Rightarrow> int list \<Rightarrow> string + bytes"
  private_key_to_public_key_pair_hex :: "string \<Rightarrow> string + string \<times> string"
  signer_sign :: "pyval \<Rightarrow> action \<Rightarrow> pyval \<Rightarrow> string + string"
  starkeySigner_sign_message :: "pyval \<Rightarrow> action \<Rightarrow> string + string"
  submit_request :: "request \<Rightarrow> string + response"

text \<open>Every call that leaves the client is recorded, in order.\<close>

datatype event =
    WalletSign pyval action pyval
  | StarkeySign pyval action
  | Submit request

section \<open>Signing\<close>

text \<open>
  The first two statements of \<^verbatim>\<open>sign\<close>: the items sorted by key (a stable sort),
  then the items whose value is not \<^verbatim>\<open>None\<close> written \<^verbatim>\<open>key=value\<close> and joined
  with \<^verbatim>\<open>&\<close>.
\<close>

definition sortedItems :: "params \<Rightarrow> params" where
  "sortedItems data = sort_key fst data"

definition dataString :: "params \<Rightarrow> string" where
  "dataString data =
     str_join ''&'' (map (\<lambda>x. fst x @ ''='' @ py_str (snd x))
                        (filter (\<lambda>x. snd x \<noteq> PNone) (sortedItems data)))"

definition sign :: "env \<Rightarrow> client \<Rightarrow> string \<Rightarrow> string \<Rightarrow> string \<Rightarrow> params \<Rightarrow> error + string" where
  "sign e s request_path method iso_timestamp data =
     (let message_string = iso_timestamp @ method @ request_path @ dataString data in
      case api_key_credentials s of
        None \<Rightarrow> Inl MissingCredentials
      | Some c \<Rightarrow>
          (let hashed = hmac_sha256 e (standard_b64encode (encode_utf8 (secret c)))
                                      (encode_utf8 message_string)
           in case decode (standard_b64encode hashed) of
                None \<Rightarrow> Inl EncodingError
              | Some t \<Rightarrow> Inr t))"

section \<open>Private requests\<close>

definition submit :: "env \<Rightarrow> request \<Rightarrow> event list \<times> (error + response)" where
  "submit e r =
     ([Submit r], case submit_request e r of Inl m \<Rightarrow> Inl (TransportError m) | Inr res \<Rightarrow> Inr res)"

text \<open>\<^verbatim>\<open>_private_request\<close>: with credentials, the four headers replace the ones passed in.\<close>

definition private_request ::
  "env \<Rightarrow> client \<Rightarrow> string \<Rightarrow> string \<Rightarrow> params \<Rightarrow> params option \<Rightarrow> event list \<times> (error + response)" where
  "private_request e s method path data headers =
     (let now_iso = generate_now e in
      case api_key_credentials s of
        None \<Rightarrow>
          submit e \<lparr>req_method = method, req_path = endpoint s @ path,
                    req_headers = headers, req_query = data\<rparr>
      | Some c \<Rightarrow>
          (case sign e s path (upper method) (py_str now_iso) data of
             Inl err \<Rightarrow> ([], Inl err)
           | Inr signature \<Rightarrow>
               submit e \<lparr>req_method = method, req_path = endpoint s @ path,
                         req_headers = Some [(''APEX-SIGNATURE'', PStr signature),
                                             (''APEX-API-KEY'', PStr (key c)),
                                             (''APEX-TIMESTAMP'', PStr (py_str now_iso)),
                                             (''APEX-PASSPHRASE'', PStr (passphrase c))],
                         req_query = data\<rparr>))"

text \<open>\<^verbatim>\<open>_get\<close> and \<^verbatim>\<open>_post\<close>.\<close>

definition private_get :: "env \<Rightarrow> client \<Rightarrow> string \<Rightarrow> params \<Rightarrow> event list \<times> (error + response)" where
  "private_get e s endpoint' params =
     private_request e s ''GET'' (generate_query_path e endpoint' params) [] None"

definition private_post ::
  "env \<Rightarrow> client \<Rightarrow> string \<Rightarrow> params \<Rightarrow> params option \<Rightarrow> event list \<times> (error + response)" where
  "private_post e s endpoint' data headers = private_request e s ''POST'' endpoint' data headers"

section \<open>Onboarding\<close>

definition register_user ::
  "env \<Rightarrow> client \<Rightarrow> pyval \<Rightarrow> pyval \<Rightarrow> pyval \<Rightarrow> pyval \<Rightarrow> pyval \<Rightarrow> pyval \<Rightarrow> pyval \<Rightarrow> pyval
     \<Rightarrow> event list \<times> (error + response \<times> client)" where
  "register_user e s nonce starkKey stark_public_key_y_coordinate' ethereum_address
       referred_by_affiliate_link country isLpAccount eth_mul_address =
     (let stark_key = py_or starkKey (stark_public_key s);
          stark_key_y = py_or stark_public_key_y_coordinate' (stark_public_key_y_coordinate s)
      in
      if stark_key = PNone then ([], Inl MissingStarkKey)
      else if stark_key_y = PNone then ([], Inl MissingStarkKeyYCoordinate)
      else
        (let eth_address = py_or ethereum_address (default_address s);
             signing = WalletSign eth_address OFF_CHAIN_ONBOARDING_ACTION nonce
         in
         case signer_sign e eth_address OFF_CHAIN_ONBOARDING_ACTION nonce of
           Inl m \<Rightarrow> ([signing], Inl (SigningUnavailable m))
         | Inr signature \<Rightarrow>
             (let path = URL_SUFFIX e @ ''/v1/onboarding'';
                  sent = private_request e s ''POST'' path
                           [(''starkKey'', stark_key),
                            (''starkKeyYCoordinate'', stark_key_y),
                            (''referredByAffiliateLink'', referred_by_affiliate_link),
                            (''ethereumAddress'', eth_address),
                            (''country'', country),
                            (''category'', PStr ''CATEGORY_API''),
                            (''isLpAccount'', isLpAccount),
                            (''ethMulAddress'', eth_mul_address)]
                           (Some [(''APEX-SIGNATURE'', PStr signature),
                                  (''APEX-ETHEREUM-ADDRESS'', eth_address)])
              in
              case snd sent of
                Inl err \<Rightarrow> (signing # fst sent, Inl err)
              | Inr onboardingRes \<Rightarrow>
                  (signing # fst sent,
                   Inr (onboardingRes,
                        case res_data onboardingRes of
                          None \<Rightarrow> s
                        | Some (u, a) \<Rightarrow> s\<lparr>user := u, account := a\<rparr>)))))"

section \<open>Key derivation\<close>

record stark_key_pair =
  public_key :: string
  public_key_y_coordinate :: string
  private_key :: string

definition derive_stark_key ::
  "env \<Rightarrow> client \<Rightarrow> pyval \<Rightarrow> event list \<times> (error + stark_key_pair)" where
  "derive_stark_key e s ethereum_address =
     (let address = py_or ethereum_address (default_address s);
          signing = [StarkeySign address OFF_CHAIN_KEY_DERIVATION_ACTION]
      in
      case starkeySigner_sign_message e address OFF_CHAIN_KEY_DERIVATION_ACTION of
        Inl m \<Rightarrow> (signing, Inl (SigningUnavailable m))
      | Inr signature \<Rightarrow>
          (case int_base16 signature of
             None \<Rightarrow> (signing, Inl MalformedSignature)
           | Some signature_int \<Rightarrow>
               (case solidityKeccak e [''uint256''] [signature_int] of
                  Inl m \<Rightarrow> (signing, Inl (LibraryError m))
                | Inr hashed_signature \<Rightarrow>
                    (case int_base16 (bytes_hex hashed_signature) of
                       None \<Rightarrow> (signing, Inl MalformedDigest)
                     | Some digest_int \<Rightarrow>
                         (let private_key_int = drop_bit 5 digest_int;
                              private_key_hex = hex private_key_int
                          in
                          case private_key_to_public_key_pair_hex e private_key_hex of
                            Inl m \<Rightarrow> (signing, Inl (LibraryError m))
                          | Inr (public_x, public_y) \<Rightarrow>
                              (signing,
                               Inr \<lparr>public_key = public_x,
                                    public_key_y_coordinate = public_y,
                                    private_key = private_key_hex\<rparr>))))))"

section \<open>The specification's own terms\<close>

text \<open>
  The canonical query string as the specification words it: drop the entries whose
  value is null, sort the rest by key, write each as \<^verbatim>\<open>key=value\<close> with the raw
  value, join with \<^verbatim>\<open>&\<close>.
\<close>

definition canonical_query :: "params \<Rightarrow> string" where
  "canonical_query ps =
     str_join ''&'' (map (\<lambda>(k, v). k @ ''='' @ py_str v)
                        (sort_key fst (filter (\<lambda>(k, v). v \<noteq> PNone) ps)))"

text \<open>
  The signature of a message under a secret: the base64 text of the digest of the
  UTF-8 message, keyed by the base64 encoding of the UTF-8 secret.
\<close>

definition hmac_signature :: "env \<Rightarrow> string \<Rightarrow> string \<Rightarrow> string" where
  "hmac_signature e secret' message =
     map (\<lambda>b. char_of (unat b))
       (standard_b64encode
          (hmac_sha256 e (standard_b64encode (encode_utf8 secret')) (encode_utf8 message)))"

text \<open>
  Plain hexadecimal: an optional \<^verbatim>\<open>0x\<close> or \<^verbatim>\<open>0X\<close>, then one or more hexadecimal
  digits and nothing else; and the number such a string denotes in base 16.
\<close>

definition strip_0x :: "string \<Rightarrow> string" where
  "strip_0x s =
     (case s of
        z # x # r \<Rightarrow> if z = CHR ''0'' \<and> (x = CHR ''x'' \<or> x = CHR ''X'') then r else s
      | _ \<Rightarrow> s)"

definition digit_value :: "char \<Rightarrow> nat" where
  "digit_value c = (case hex_digit c of None \<Rightarrow> 0 | Some v \<Rightarrow> v)"

definition valid_hexadecimal :: "string \<Rightarrow> bool" where
  "valid_hexadecimal s = (strip_0x s \<noteq> [] \<and> list_all (\<lambda>c. hex_digit c \<noteq> None) (strip_0x s))"

definition hex_value :: "string \<Rightarrow> nat" where
  "hex_value s = foldl (\<lambda>a c. 16 * a + digit_value c) 0 (strip_0x s)"

text \<open>A digest read as an unsigned integer, most significant byte first.\<close>

definition be_nat :: "bytes \<Rightarrow> nat" where
  "be_nat bs = foldl (\<lambda>a b. 256 * a + unat b) 0 bs"

section \<open>A concrete client\<close>

text \<open>
  An environment and a client on which the model can be run. The collaborators are
  small stand-ins: the digest is the key followed by the message, which keeps both
  visible in the result; the hash is 32 bytes ending in the low byte of its input;
  the transport answers with no data.
\<close>

definition example_env :: env where
  "example_env =
     \<lparr>URL_SUFFIX = ''/api'',
      generate_now = PStr ''2024-01-01T00:00:00.000Z'',
      generate_query_path = (\<lambda>endpoint' params. endpoint' @ ''?'' @ dataString params),
      hmac_sha256 = (\<lambda>k m. k @ m),
      solidityKeccak = (\<lambda>types values. Inr (replicate 31 0 @ [of_int (sum_list values)])),
      private_key_to_public_key_pair_hex = (\<lambda>k. Inr (k @ ''a'', k @ ''b'')),
      signer_sign = (\<lambda>address tag nonce. Inr ''0xabc''),
      starkeySigner_sign_message = (\<lambda>address tag. Inr ''0x1ff''),
      submit_request = (\<lambda>r. Inr \<lparr>res_data = None\<rparr>)\<rparr>"

text \<open>The same environment with a wallet that returns a given signature for key derivation.\<close>

definition wallet_returning :: "string \<Rightarrow> env" where
  "wallet_returning signature = example_env\<lparr>starkeySigner_sign_message := (\<lambda>address tag. Inr signature)\<rparr>"

definition example_client :: client where
  "example_client =
     \<lparr>endpoint = ''https://host'',
      api_key_credentials = Some \<lparr>key = ''K'', secret = ''S'', passphrase = ''P''\<rparr>,
      stark_public_key = PNone,
      stark_public_key_y_coordinate = PNone,
      default_address = PStr ''0xabc'',
      user = PNone,
      account = PNone\<rparr>"

text \<open>A client with nothing stored: no credentials, no keys, no address.\<close>

definition blank_client :: client where
  "blank_client =
     \<lparr>endpoint = ''https://host'',
      api_key_credentials = None,
      stark_public_key = PNone,
      stark_public_key_y_coordinate = PNone,
      default_address = PNone,
      user = PNone,
      account = PNone\<rparr>"

section \<open>Base64 output is text\<close>

lemma unat_of_char: "unat (of_char c :: 8 word) = of_char c"
proof -
  have "(of_char c :: 8 word) = of_nat (of_char c)"
    by (simp only: of_nat_of_char)
  moreover have "(of_char c :: nat) < 256" by simp
  ultimately show ?thesis by (simp add: unat_of_nat)
qed

lemma b64_letter_ascii: "unat (b64_letter n) < 128"
proof -
  have all: "list_all (\<lambda>c. (of_char c :: nat) < 128) b64_alphabet"
    by (simp add: b64_alphabet_def)
  have len: "length b64_alphabet = 64"
    by (simp add: b64_alphabet_def)
  have "n mod 64 < length b64_alphabet" using len by simp
  then have "(of_char (b64_alphabet ! (n mod 64)) :: nat) < 128"
    using all by (simp add: list_all_length)
  then show ?thesis
    by (simp add: b64_letter_def unat_of_char)
qed

lemma b64_pad_ascii: "unat b64_pad < 128"
  by (simp add: b64_pad_def unat_of_char)

lemma standard_b64encode_ascii: "list_all (\<lambda>b. unat b < 128) (standard_b64encode bs)"
  by (induction bs rule: standard_b64encode.induct) (simp_all add: b64_letter_ascii b64_pad_ascii)

lemma decode_standard_b64encode:
  "decode (standard_b64encode bs) = Some (map (\<lambda>b. char_of (unat b)) (standard_b64encode bs))"
  by (simp add: decode_def standard_b64encode_ascii)

lemma dataString_canonical: "dataString data = canonical_query data"
  by (simp add: dataString_def canonical_query_def sortedItems_def filter_sort case_prod_unfold)

lemma sign_configured:
  "api_key_credentials s = Some c \<Longrightarrow>
   sign e s request_path method iso_timestamp data =
     Inr (hmac_signature e (secret c) (iso_timestamp @ method @ request_path @ dataString data))"
  by (simp add: sign_def hmac_signature_def decode_standard_b64encode)

lemma sort_key_unique:
  assumes "distinct (map f xs)" "distinct (map f ys)" "set xs = set ys"
  shows "sort_key f xs = sort_key f ys"
proof -
  let ?a = "sort_key f xs" and ?b = "sort_key f ys"
  have inj: "inj_on f (set ?a \<union> set ?b)"
    using assms by (simp add: distinct_map)
  have "map f ?a = map f ?b"
  proof (rule sorted_distinct_set_unique)
    show "sorted (map f ?a)" "sorted (map f ?b)" by simp_all
    show "distinct (map f ?a)" using assms(1) by (simp add: distinct_map)
    show "distinct (map f ?b)" using assms(2) by (simp add: distinct_map)
    show "set (map f ?a) = set (map f ?b)" using assms(3) by simp
  qed
  then show ?thesis using inj by (simp add: inj_on_map_eq_map)
qed

lemma dataString_order:
  "distinct (map fst xs) \<Longrightarrow> distinct (map fst ys) \<Longrightarrow> set xs = set ys \<Longrightarrow> dataString xs = dataString ys"
  by (simp add: dataString_def sortedItems_def sort_key_unique [of fst xs ys])

lemma dataString_drop_None: "dataString (xs @ (k, PNone) # ys) = dataString (xs @ ys)"
  by (simp add: dataString_canonical canonical_query_def)


section \<open>Reading hexadecimal\<close>

lemma hex_digit_special:
  "hex_digit CHR ''_'' = None" "hex_digit CHR ''+'' = None" "hex_digit CHR ''-'' = None"
  "hex_digit CHR ''x'' = None" "hex_digit CHR ''X'' = None" "hex_digit CHR ''0'' = Some 0"
  by (simp_all add: hex_digit_def)

lemma is_space_no_digit: "is_space c \<Longrightarrow> hex_digit c = None"
  by (auto simp: is_space_def hex_digit_def Let_def)

lemma strip_id:
  assumes "s \<noteq> []" "\<not> is_space (hd s)" "\<not> is_space (last s)"
  shows "strip s = s"
proof -
  have a: "dropWhile is_space s = s"
    using assms(1,2) by (cases s) simp_all
  have "rev s \<noteq> []" "\<not> is_space (hd (rev s))"
    using assms(1,3) by (simp_all add: hd_rev)
  then have "dropWhile is_space (rev s) = rev s"
    by (cases "rev s") simp_all
  then show ?thesis by (simp add: strip_def a)
qed

lemma more_digits_plain:
  "list_all (\<lambda>c. hex_digit c \<noteq> None) cs \<Longrightarrow>
   more_digits acc cs = Some (foldl (\<lambda>a c. 16 * a + digit_value c) acc cs)"
proof (induction cs arbitrary: acc)
  case Nil
  then show ?case by simp
next
  case (Cons c cs)
  then obtain v where v: "hex_digit c = Some v" by auto
  then have "c \<noteq> CHR ''_''" using hex_digit_special(1) by auto
  then show ?case using Cons v by (simp add: digit_value_def)
qed

lemma digits16_plain:
  assumes "cs \<noteq> []" "list_all (\<lambda>c. hex_digit c \<noteq> None) cs"
  shows "digits16 cs = Some (foldl (\<lambda>a c. 16 * a + digit_value c) 0 cs)"
proof -
  obtain c r where cs: "cs = c # r" using assms(1) by (cases cs) auto
  then obtain v where v: "hex_digit c = Some v" using assms(2) by auto
  have "more_digits v r = Some (foldl (\<lambda>a c. 16 * a + digit_value c) v r)"
    using assms(2) cs by (simp add: more_digits_plain)
  then show ?thesis using cs v by (simp add: digits16_def digit_value_def)
qed

lemma unsigned16_plain:
  assumes "valid_hexadecimal s"
  shows "unsigned16 s = Some (hex_value s)"
proof (cases "\<exists>x r. s = CHR ''0'' # x # r \<and> (x = CHR ''x'' \<or> x = CHR ''X'')")
  case True
  then obtain x r where s: "s = CHR ''0'' # x # r" and x: "x = CHR ''x'' \<or> x = CHR ''X''" by blast
  then have st: "strip_0x s = r" by (auto simp: strip_0x_def)
  then have r: "r \<noteq> []" "list_all (\<lambda>c. hex_digit c \<noteq> None) r"
    using assms by (simp_all add: valid_hexadecimal_def)
  then obtain u r' where ur: "r = u # r'" by (cases r) auto
  then have "u \<noteq> CHR ''_''" using r(2) hex_digit_special(1) by auto
  then have "unsigned16 s = digits16 r" using s x ur by (auto simp: unsigned16_def)
  then show ?thesis using digits16_plain [OF r] st by (simp add: hex_value_def)
next
  case False
  then have st: "strip_0x s = s" by (auto simp: strip_0x_def split: list.splits)
  have "unsigned16 s = digits16 s" using False by (auto simp: unsigned16_def split: list.splits)
  moreover have "s \<noteq> []" "list_all (\<lambda>c. hex_digit c \<noteq> None) s"
    using assms st by (simp_all add: valid_hexadecimal_def)
  ultimately show ?thesis using digits16_plain [of s] st by (simp add: hex_value_def)
qed

lemma valid_hexadecimal_ends:
  assumes "valid_hexadecimal s"
  shows "s \<noteq> []" "hex_digit (hd s) \<noteq> None" "hex_digit (last s) \<noteq> None"
proof -
  let ?d = "strip_0x s"
  have d: "?d \<noteq> []" "list_all (\<lambda>c. hex_digit c \<noteq> None) ?d"
    using assms by (simp_all add: valid_hexadecimal_def)
  show "s \<noteq> []" using d(1) by (auto simp: strip_0x_def)
  have "?d = s \<or> (\<exists>x. s = CHR ''0'' # x # ?d)"
    by (auto simp: strip_0x_def split: list.splits)
  then show "hex_digit (hd s) \<noteq> None"
  proof
    assume "?d = s" then show ?thesis using d by (cases s) auto
  next
    assume "\<exists>x. s = CHR ''0'' # x # ?d"
    then obtain x where "s = CHR ''0'' # x # ?d" ..
    then have "hd s = CHR ''0''" by (metis list.sel(1))
    then show ?thesis by (simp add: hex_digit_special)
  qed
  have "last ?d \<in> set ?d" using d(1) by simp
  then have l: "hex_digit (last ?d) \<noteq> None" using d(2) by (simp add: list_all_iff)
  have "last s = last ?d"
  proof (cases "?d = s")
    case True then show ?thesis by simp
  next
    case False
    then obtain x where "s = CHR ''0'' # x # ?d"
      using \<open>?d = s \<or> (\<exists>x. s = CHR ''0'' # x # ?d)\<close> by blast
    then have "last s = last (CHR ''0'' # x # ?d)" by simp
    then show ?thesis using d(1) by simp
  qed
  then show "hex_digit (last s) \<noteq> None" using l by simp
qed

lemma int_base16_plain:
  assumes "valid_hexadecimal s"
  shows "int_base16 s = Some (int (hex_value s))"
proof -
  note e = valid_hexadecimal_ends [OF assms]
  have "strip s = s"
    using e is_space_no_digit by (intro strip_id) auto
  moreover obtain c cs where s: "s = c # cs" using e(1) by (cases s) auto
  moreover have "c \<noteq> CHR ''-''" "c \<noteq> CHR ''+''"
    using e(2) s hex_digit_special by auto
  ultimately show ?thesis
    using unsigned16_plain [OF assms] by (simp add: int_base16_def)
qed

lemma hex_digit_digit_char: "d < 16 \<Longrightarrow> hex_digit (digit_char d) = Some d"
  by (auto simp: hex_digit_def digit_char_def Let_def)

lemma digit_value_digit_char: "d < 16 \<Longrightarrow> digit_value (digit_char d) = d"
  by (simp add: digit_value_def hex_digit_digit_char)

lemma byte_split: "16 * (unat (b :: 8 word) div 16) + unat b mod 16 = unat b"
  by simp

lemma byte_hi: "unat (b :: 8 word) div 16 < 16"
proof -
  have "unat b < 256" using unsigned_less [of b] by simp
  then show ?thesis by simp
qed

lemma bytes_digits_all:
  "list_all (\<lambda>c. hex_digit c \<noteq> None)
     (concat (map (\<lambda>b. [digit_char (unat b div 16), digit_char (unat b mod 16)]) (bs :: bytes)))"
  by (induction bs) (simp_all add: hex_digit_digit_char byte_hi)

lemma bytes_digits_value:
  "foldl (\<lambda>a c. 16 * a + digit_value c) acc
     (concat (map (\<lambda>b. [digit_char (unat b div 16), digit_char (unat b mod 16)]) (bs :: bytes)))
   = foldl (\<lambda>a b. 256 * a + unat b) acc bs"
proof (induction bs arbitrary: acc)
  case Nil
  then show ?case by simp
next
  case (Cons b bs)
  have "16 * (16 * acc + unat b div 16) + unat b mod 16 = 256 * acc + unat b"
    using byte_split [of b] by simp
  then show ?case using Cons by (simp add: digit_value_digit_char byte_hi add.commute)
qed

lemma strip_0x_bytes_hex:
  "strip_0x (bytes_hex bs) = concat (map (\<lambda>b. [digit_char (unat b div 16), digit_char (unat b mod 16)]) bs)"
  by (simp add: strip_0x_def bytes_hex_def)

text \<open>Reading back the hexadecimal text of a digest gives its big-endian value.\<close>

lemma int_base16_bytes_hex:
  assumes "bs \<noteq> []"
  shows "int_base16 (bytes_hex bs) = Some (int (be_nat bs))"
proof -
  have "strip_0x (bytes_hex bs) \<noteq> []"
    using assms by (cases bs) (simp_all add: strip_0x_bytes_hex)
  then have "valid_hexadecimal (bytes_hex bs)"
    using bytes_digits_all [of bs] by (simp add: valid_hexadecimal_def strip_0x_bytes_hex)
  moreover have "hex_value (bytes_hex bs) = be_nat bs"
    by (simp add: hex_value_def be_nat_def strip_0x_bytes_hex bytes_digits_value)
  ultimately show ?thesis using int_base16_plain by simp
qed

lemma nat_digits_all: "list_all (\<lambda>c. hex_digit c \<noteq> None) (nat_digits 16 n)"
proof (induction "16 :: nat" n rule: nat_digits.induct)
  case (1 n)
  show ?case
  proof (cases "n < 16")
    case True
    then show ?thesis by (simp add: nat_digits.simps [of 16 n] hex_digit_digit_char)
  next
    case False
    then show ?thesis using 1 by (simp add: nat_digits.simps [of 16 n] hex_digit_digit_char)
  qed
qed

lemma nat_digits_value: "foldl (\<lambda>a c. 16 * a + digit_value c) 0 (nat_digits 16 n) = n"
proof (induction "16 :: nat" n rule: nat_digits.induct)
  case (1 n)
  show ?case
  proof (cases "n < 16")
    case True
    then show ?thesis by (simp add: nat_digits.simps [of 16 n] digit_value_digit_char)
  next
    case False
    then show ?thesis using 1 by (simp add: nat_digits.simps [of 16 n] digit_value_digit_char)
  qed
qed

lemma nat_digits_nonempty: "nat_digits b n \<noteq> []"
  by (simp add: nat_digits.simps [of b n])

text \<open>\<^verbatim>\<open>hex\<close> writes a hexadecimal string, and \<^verbatim>\<open>int(_, 16)\<close> reads it back.\<close>

lemma valid_hexadecimal_hex:
  assumes "0 \<le> i"
  shows "valid_hexadecimal (hex i)" "hex_value (hex i) = nat i"
proof -
  have "hex i = CHR ''0'' # CHR ''x'' # nat_digits 16 (nat i)"
    using assms by (simp add: hex_def)
  then have st: "strip_0x (hex i) = nat_digits 16 (nat i)"
    by (simp add: strip_0x_def)
  show "valid_hexadecimal (hex i)"
    unfolding valid_hexadecimal_def st by (intro conjI nat_digits_nonempty nat_digits_all)
  show "hex_value (hex i) = nat i"
    by (simp add: hex_value_def st nat_digits_value)
qed

lemma int_base16_hex: "0 \<le> i \<Longrightarrow> int_base16 (hex i) = Some i"
  using valid_hexadecimal_hex [of i] int_base16_plain [of "hex i"] by simp

section \<open>Request signing\<close>

text \<open>
  C1. With a secret configured, \<^verbatim>\<open>sign\<close> returns the base64 text of the HMAC-SHA256
  digest of the UTF-8 bytes of timestamp, method, request path and canonical query
  string, concatenated in that order with nothing between them; the key is the
  base64 encoding of the UTF-8 bytes of the secret, not the secret itself.
\<close>

theorem sign_hmac_base64:
  assumes "api_key_credentials s = Some c"
  shows "sign e s request_path method iso_timestamp data =
           Inr (map (\<lambda>b. char_of (unat b))
                  (standard_b64encode
                     (hmac_sha256 e
                        (standard_b64encode (encode_utf8 (secret c)))
                        (encode_utf8 (iso_timestamp @ method @ request_path @ canonical_query data)))))"
  using assms by (simp add: sign_def decode_standard_b64encode dataString_canonical)

theorem sign_hmac_base64_witness:
  "api_key_credentials example_client = Some \<lparr>key = ''K'', secret = ''S'', passphrase = ''P''\<rparr> \<and>
   standard_b64encode (encode_utf8 ''S'') = encode_utf8 ''Uw=='' \<and>
   canonical_query [(''id'', PStr ''7'')] = ''id=7'' \<and>
   sign example_env example_client ''/api/v1/account'' ''GET'' ''2024-01-01T00:00:00.000Z''
        [(''id'', PStr ''7'')] =
     Inr ''VXc9PTIwMjQtMDEtMDFUMDA6MDA6MDAuMDAwWkdFVC9hcGkvdjEvYWNjb3VudGlkPTc=''"
proof -
  have c: "api_key_credentials example_client = Some \<lparr>key = ''K'', secret = ''S'', passphrase = ''P''\<rparr>"
    by (simp add: example_client_def)
  have k: "standard_b64encode (encode_utf8 ''S'') = encode_utf8 ''Uw==''"
    by code_simp
  have q: "canonical_query [(''id'', PStr ''7'')] = ''id=7''"
    by code_simp
  have v: "map (\<lambda>b. char_of (unat b))
             (standard_b64encode
                (hmac_sha256 example_env
                   (standard_b64encode (encode_utf8 (secret \<lparr>key = ''K'', secret = ''S'', passphrase = ''P''\<rparr>)))
                   (encode_utf8 (''2024-01-01T00:00:00.000Z'' @ ''GET'' @ ''/api/v1/account''
                                 @ canonical_query [(''id'', PStr ''7'')])))) =
           ''VXc9PTIwMjQtMDEtMDFUMDA6MDA6MDAuMDAwWkdFVC9hcGkvdjEvYWNjb3VudGlkPTc=''"
    by code_simp
  show ?thesis
    using sign_hmac_base64 [OF c, of example_env "''/api/v1/account''" "''GET''"
        "''2024-01-01T00:00:00.000Z''" "[(''id'', PStr ''7'')]"] c k q v
    by simp
qed

text \<open>
  C3. The query string that \<^verbatim>\<open>sign\<close> builds is the canonical one: null-valued
  entries dropped, the rest sorted by key in ascending order, written \<^verbatim>\<open>key=value\<close>
  with the raw value and joined with \<^verbatim>\<open>&\<close>. In particular an extra null-valued
  entry, wherever it stands, does not change the signature.
\<close>

theorem sign_canonical_query:
  "dataString data = canonical_query data \<and>
   sign e s request_path method iso_timestamp (xs @ (k, PNone) # ys) =
     sign e s request_path method iso_timestamp (xs @ ys)"
proof (intro conjI)
  show "dataString data = canonical_query data"
    by (rule dataString_canonical)
  show "sign e s request_path method iso_timestamp (xs @ (k, PNone) # ys) =
          sign e s request_path method iso_timestamp (xs @ ys)"
    by (simp add: sign_def dataString_drop_None)
qed

theorem sign_canonical_query_witness:
  "dataString [(''b'', PInt 2), (''x'', PNone), (''a'', PStr ''1&=''), (''B'', PBool True)] = ''B=True&a=1&=&b=2'' \<and>
   sign example_env example_client ''/p'' ''POST'' ''t'' [(''a'', PInt 1), (''b'', PNone)] =
     sign example_env example_client ''/p'' ''POST'' ''t'' [(''a'', PInt 1)]"
proof -
  have "dataString [(''b'', PInt 2), (''x'', PNone), (''a'', PStr ''1&=''), (''B'', PBool True)] = ''B=True&a=1&=&b=2''"
    by code_simp
  then show ?thesis
    using sign_canonical_query [of "[(''a'', PInt 1), (''b'', PNone)]" example_env example_client
        "''/p''" "''POST''" "''t''" "[(''a'', PInt 1)]" "''b''" "[]"]
    by simp
qed

text \<open>
  C9. Two parameter mappings that hold the same key/value pairs, whatever the order
  in which they were inserted, have the same canonical query string and, for the same
  secret, timestamp, method and path, the same signature.
\<close>

theorem sign_insertion_order:
  assumes "distinct (map fst xs)" and "distinct (map fst ys)" and "set xs = set ys"
  shows "dataString xs = dataString ys \<and>
         sign e s request_path method iso_timestamp xs = sign e s request_path method iso_timestamp ys"
  using dataString_order [OF assms] by (simp add: sign_def)

theorem sign_insertion_order_witness:
  "distinct (map fst [(''b'', PInt 2), (''a'', PInt 1), (''c'', PNone)]) \<and>
   distinct (map fst [(''c'', PNone), (''a'', PInt 1), (''b'', PInt 2)]) \<and>
   set [(''b'', PInt 2), (''a'', PInt 1), (''c'', PNone)] = set [(''c'', PNone), (''a'', PInt 1), (''b'', PInt 2)] \<and>
   dataString [(''b'', PInt 2), (''a'', PInt 1), (''c'', PNone)] = ''a=1&b=2'' \<and>
   dataString [(''c'', PNone), (''a'', PInt 1), (''b'', PInt 2)] = ''a=1&b=2'' \<and>
   sign example_env example_client ''/p'' ''POST'' ''t'' [(''b'', PInt 2), (''a'', PInt 1), (''c'', PNone)] =
     sign example_env example_client ''/p'' ''POST'' ''t'' [(''c'', PNone), (''a'', PInt 1), (''b'', PInt 2)]"
proof -
  have d1: "distinct (map fst [(''b'', PInt 2), (''a'', PInt 1), (''c'', PNone)])" by simp
  have d2: "distinct (map fst [(''c'', PNone), (''a'', PInt 1), (''b'', PInt 2)])" by simp
  have st: "set [(''b'', PInt 2), (''a'', PInt 1), (''c'', PNone)] = set [(''c'', PNone), (''a'', PInt 1), (''b'', PInt 2)]"
    by auto
  have v: "dataString [(''b'', PInt 2), (''a'', PInt 1), (''c'', PNone)] = ''a=1&b=2''"
    by code_simp
  show ?thesis
    using sign_insertion_order [OF d1 d2 st, of example_env example_client "''/p''" "''POST''" "''t''"] d1 d2 st v
    by simp
qed

section \<open>Private requests carry the four headers\<close>

text \<open>
  C7. A private call made while credentials are configured submits one request with
  exactly four headers: the signature, the API key, the timestamp and the
  passphrase. The timestamp header is the very string that stands first in the
  signed message.
\<close>

theorem private_request_headers:
  assumes "api_key_credentials s = Some c"
  shows "fst (private_request e s method path data headers) =
           [Submit \<lparr>req_method = method,
                    req_path = endpoint s @ path,
                    req_headers =
                      Some [(''APEX-SIGNATURE'',
                             PStr (hmac_signature e (secret c)
                                     (py_str (generate_now e) @ upper method @ path @ dataString data))),
                            (''APEX-API-KEY'', PStr (key c)),
                            (''APEX-TIMESTAMP'', PStr (py_str (generate_now e))),
                            (''APEX-PASSPHRASE'', PStr (passphrase c))],
                    req_query = data\<rparr>]"
  using assms by (simp add: private_request_def sign_configured submit_def Let_def)

theorem private_request_headers_witness:
  "api_key_credentials example_client = Some \<lparr>key = ''K'', secret = ''S'', passphrase = ''P''\<rparr> \<and>
   fst (private_request example_env example_client ''post'' ''/api/v1/x'' [(''id'', PStr ''7'')]
          (Some [(''X-OTHER'', PStr ''y'')])) =
     [Submit \<lparr>req_method = ''post'',
              req_path = ''https://host/api/v1/x'',
              req_headers =
                Some [(''APEX-SIGNATURE'', PStr ''VXc9PTIwMjQtMDEtMDFUMDA6MDA6MDAuMDAwWlBPU1QvYXBpL3YxL3hpZD03''),
                      (''APEX-API-KEY'', PStr ''K''),
                      (''APEX-TIMESTAMP'', PStr ''2024-01-01T00:00:00.000Z''),
                      (''APEX-PASSPHRASE'', PStr ''P'')],
              req_query = [(''id'', PStr ''7'')]\<rparr>]"
proof -
  have c: "api_key_credentials example_client = Some \<lparr>key = ''K'', secret = ''S'', passphrase = ''P''\<rparr>"
    by (simp add: example_client_def)
  have v: "hmac_signature example_env (secret \<lparr>key = ''K'', secret = ''S'', passphrase = ''P''\<rparr>)
             (py_str (generate_now example_env) @ upper ''post'' @ ''/api/v1/x'' @ dataString [(''id'', PStr ''7'')]) =
           ''VXc9PTIwMjQtMDEtMDFUMDA6MDA6MDAuMDAwWlBPU1QvYXBpL3YxL3hpZD03''"
    by code_simp
  have t: "py_str (generate_now example_env) = ''2024-01-01T00:00:00.000Z''"
    by code_simp
  have p: "endpoint example_client = ''https://host''"
    by (simp add: example_client_def)
  show ?thesis
    using private_request_headers [OF c, of example_env "''post''" "''/api/v1/x''" "[(''id'', PStr ''7'')]"
        "Some [(''X-OTHER'', PStr ''y'')]"] c v t p
    by simp
qed

text \<open>
  C10. A private GET made through \<^verbatim>\<open>_get\<close> puts the parameters into the request path
  by way of the query-path helper and signs with an empty data mapping: the query
  part of the signed message is empty, and what is signed is timestamp, \<^verbatim>\<open>GET\<close> and
  that path.
\<close>

theorem private_get_signs_path:
  assumes "api_key_credentials s = Some c"
  shows "dataString [] = [] \<and>
         private_get e s endpoint' params =
           private_request e s ''GET'' (generate_query_path e endpoint' params) [] None \<and>
         sign e s (generate_query_path e endpoint' params) (upper ''GET'') (py_str (generate_now e)) [] =
           Inr (hmac_signature e (secret c)
                  (py_str (generate_now e) @ ''GET'' @ generate_query_path e endpoint' params)) \<and>
         fst (private_get e s endpoint' params) =
           [Submit \<lparr>req_method = ''GET'',
                    req_path = endpoint s @ generate_query_path e endpoint' params,
                    req_headers =
                      Some [(''APEX-SIGNATURE'',
                             PStr (hmac_signature e (secret c)
                                     (py_str (generate_now e) @ ''GET'' @ generate_query_path e endpoint' params))),
                            (''APEX-API-KEY'', PStr (key c)),
                            (''APEX-TIMESTAMP'', PStr (py_str (generate_now e))),
                            (''APEX-PASSPHRASE'', PStr (passphrase c))],
                    req_query = []\<rparr>]"
proof -
  have d: "dataString [] = []"
    by (simp add: dataString_def sortedItems_def)
  have u: "upper ''GET'' = ''GET''"
    by (simp add: upper_def upper_char_def)
  show ?thesis
    using assms d u by (simp add: private_get_def private_request_def sign_configured submit_def Let_def)
qed

theorem private_get_signs_path_witness:
  "api_key_credentials example_client = Some \<lparr>key = ''K'', secret = ''S'', passphrase = ''P''\<rparr> \<and>
   generate_query_path example_env ''/api/v1/account'' [(''id'', PStr ''7'')] = ''/api/v1/account?id=7'' \<and>
   fst (private_get example_env example_client ''/api/v1/account'' [(''id'', PStr ''7'')]) =
     [Submit \<lparr>req_method = ''GET'',
              req_path = ''https://host/api/v1/account?id=7'',
              req_headers =
                Some [(''APEX-SIGNATURE'', PStr ''VXc9PTIwMjQtMDEtMDFUMDA6MDA6MDAuMDAwWkdFVC9hcGkvdjEvYWNjb3VudD9pZD03''),
                      (''APEX-API-KEY'', PStr ''K''),
                      (''APEX-TIMESTAMP'', PStr ''2024-01-01T00:00:00.000Z''),
                      (''APEX-PASSPHRASE'', PStr ''P'')],
              req_query = []\<rparr>]"
proof -
  have c: "api_key_credentials example_client = Some \<lparr>key = ''K'', secret = ''S'', passphrase = ''P''\<rparr>"
    by (simp add: example_client_def)
  have q: "generate_query_path example_env ''/api/v1/account'' [(''id'', PStr ''7'')] = ''/api/v1/account?id=7''"
    by code_simp
  have t: "py_str (generate_now example_env) = ''2024-01-01T00:00:00.000Z''"
    by code_simp
  have v: "hmac_signature example_env (secret \<lparr>key = ''K'', secret = ''S'', passphrase = ''P''\<rparr>)
             (''2024-01-01T00:00:00.000Z'' @ ''GET'' @ ''/api/v1/account?id=7'') = ''VXc9PTIwMjQtMDEtMDFUMDA6MDA6MDAuMDAwWkdFVC9hcGkvdjEvYWNjb3VudD9pZD03''"
    by code_simp
  have p: "endpoint example_client = ''https://host''"
    by (simp add: example_client_def)
  have "fst (private_get example_env example_client ''/api/v1/account'' [(''id'', PStr ''7'')]) =
          [Submit \<lparr>req_method = ''GET'',
                   req_path = endpoint example_client
                              @ generate_query_path example_env ''/api/v1/account'' [(''id'', PStr ''7'')],
                   req_headers =
                     Some [(''APEX-SIGNATURE'',
                            PStr (hmac_signature example_env
                                    (secret \<lparr>key = ''K'', secret = ''S'', passphrase = ''P''\<rparr>)
                                    (py_str (generate_now example_env) @ ''GET''
                                     @ generate_query_path example_env ''/api/v1/account'' [(''id'', PStr ''7'')]))),
                           (''APEX-API-KEY'', PStr (key \<lparr>key = ''K'', secret = ''S'', passphrase = ''P''\<rparr>)),
                           (''APEX-TIMESTAMP'', PStr (py_str (generate_now example_env))),
                           (''APEX-PASSPHRASE'',
                            PStr (passphrase \<lparr>key = ''K'', secret = ''S'', passphrase = ''P''\<rparr>))],
                   req_query = []\<rparr>]"
    using private_get_signs_path [OF c, of example_env "''/api/v1/account''" "[(''id'', PStr ''7'')]"]
    by blast
  then show ?thesis
    using c q t v p by simp
qed

section \<open>The onboarding request\<close>

text \<open>
  C4, as the code has it. When no API credentials are configured, the onboarding
  request carries exactly two headers: the wallet signature over the onboarding
  action and the Ethereum address.
\<close>

theorem register_user_two_headers:
  assumes "api_key_credentials s = None"
      and "py_or starkKey (stark_public_key s) \<noteq> PNone"
      and "py_or stark_public_key_y_coordinate' (stark_public_key_y_coordinate s) \<noteq> PNone"
      and "signer_sign e (py_or ethereum_address (default_address s)) OFF_CHAIN_ONBOARDING_ACTION nonce
             = Inr signature"
  shows "fst (register_user e s nonce starkKey stark_public_key_y_coordinate' ethereum_address
                referred_by_affiliate_link country isLpAccount eth_mul_address) =
           [WalletSign (py_or ethereum_address (default_address s)) OFF_CHAIN_ONBOARDING_ACTION nonce,
            Submit \<lparr>req_method = ''POST'',
                    req_path = endpoint s @ URL_SUFFIX e @ ''/v1/onboarding'',
                    req_headers =
                      Some [(''APEX-SIGNATURE'', PStr signature),
                            (''APEX-ETHEREUM-ADDRESS'', py_or ethereum_address (default_address s))],
                    req_query =
                      [(''starkKey'', py_or starkKey (stark_public_key s)),
                       (''starkKeyYCoordinate'',
                        py_or stark_public_key_y_coordinate' (stark_public_key_y_coordinate s)),
                       (''referredByAffiliateLink'', referred_by_affiliate_link),
                       (''ethereumAddress'', py_or ethereum_address (default_address s)),
                       (''country'', country),
                       (''category'', PStr ''CATEGORY_API''),
                       (''isLpAccount'', isLpAccount),
                       (''ethMulAddress'', eth_mul_address)]\<rparr>]"
  using assms
  by (simp add: register_user_def private_request_def submit_def Let_def split: sum.splits)

theorem register_user_two_headers_witness:
  "api_key_credentials blank_client = None \<and>
   py_or (PStr ''0x1'') (stark_public_key blank_client) \<noteq> PNone \<and>
   py_or (PStr ''0x2'') (stark_public_key_y_coordinate blank_client) \<noteq> PNone \<and>
   signer_sign example_env (py_or (PStr ''0xabc'') (default_address blank_client))
     OFF_CHAIN_ONBOARDING_ACTION (PStr ''n'') = Inr ''0xabc'' \<and>
   fst (register_user example_env blank_client (PStr ''n'') (PStr ''0x1'') (PStr ''0x2'')
          (PStr ''0xabc'') PNone PNone PNone PNone) =
     [WalletSign (PStr ''0xabc'') OFF_CHAIN_ONBOARDING_ACTION (PStr ''n''),
      Submit \<lparr>req_method = ''POST'',
              req_path = ''https://host/api/v1/onboarding'',
              req_headers =
                Some [(''APEX-SIGNATURE'', PStr ''0xabc''),
                      (''APEX-ETHEREUM-ADDRESS'', PStr ''0xabc'')],
              req_query =
                [(''starkKey'', PStr ''0x1''),
                 (''starkKeyYCoordinate'', PStr ''0x2''),
                 (''referredByAffiliateLink'', PNone),
                 (''ethereumAddress'', PStr ''0xabc''),
                 (''country'', PNone),
                 (''category'', PStr ''CATEGORY_API''),
                 (''isLpAccount'', PNone),
                 (''ethMulAddress'', PNone)]\<rparr>]"
proof -
  have a: "api_key_credentials blank_client = None"
    by (simp add: blank_client_def)
  have k: "py_or (PStr ''0x1'') (stark_public_key blank_client) \<noteq> PNone"
    by (simp add: py_or_def)
  have y: "py_or (PStr ''0x2'') (stark_public_key_y_coordinate blank_client) \<noteq> PNone"
    by (simp add: py_or_def)
  have g: "signer_sign example_env (py_or (PStr ''0xabc'') (default_address blank_client))
             OFF_CHAIN_ONBOARDING_ACTION (PStr ''n'') = Inr ''0xabc''"
    by (simp add: example_env_def)
  have u: "URL_SUFFIX example_env = ''/api''" "endpoint blank_client = ''https://host''"
    by (simp_all add: example_env_def blank_client_def)
  show ?thesis
    using register_user_two_headers [OF a k y g, of PNone PNone PNone PNone] a k y g u
    by (simp add: py_or_def)
qed

text \<open>
  C4 as stated fails for a client with credentials: \<^verbatim>\<open>_private_request\<close> replaces the
  headers it was given by the four standard ones, and the onboarding signature and
  the address are not sent.
\<close>

theorem register_user_headers_replaced:
  "fst (register_user example_env example_client (PStr ''n'') (PStr ''0x1'') (PStr ''0x2'')
          PNone PNone PNone PNone PNone) =
     [WalletSign (PStr ''0xabc'') OFF_CHAIN_ONBOARDING_ACTION (PStr ''n''),
      Submit \<lparr>req_method = ''POST'',
              req_path = ''https://host/api/v1/onboarding'',
              req_headers =
                Some [(''APEX-SIGNATURE'', PStr ''VXc9PTIwMjQtMDEtMDFUMDA6MDA6MDAuMDAwWlBPU1QvYXBpL3YxL29uYm9hcmRpbmdjYXRlZ29yeT1DQVRFR09SWV9BUEkmZXRoZXJldW1BZGRyZXNzPTB4YWJjJnN0YXJrS2V5PTB4MSZzdGFya0tleVlDb29yZGluYXRlPTB4Mg==''),
                      (''APEX-API-KEY'', PStr ''K''),
                      (''APEX-TIMESTAMP'', PStr ''2024-01-01T00:00:00.000Z''),
                      (''APEX-PASSPHRASE'', PStr ''P'')],
              req_query =
                [(''starkKey'', PStr ''0x1''),
                 (''starkKeyYCoordinate'', PStr ''0x2''),
                 (''referredByAffiliateLink'', PNone),
                 (''ethereumAddress'', PStr ''0xabc''),
                 (''country'', PNone),
                 (''category'', PStr ''CATEGORY_API''),
                 (''isLpAccount'', PNone),
                 (''ethMulAddress'', PNone)]\<rparr>]"
  by code_simp

text \<open>
  C5, as the code has it. With no stark key passed and none stored, \<^verbatim>\<open>register_user\<close>
  fails with \<open>MissingStarkKey\<close> and nothing has left the client. With a stark key
  available and no y-coordinate passed or stored, it fails with
  \<open>MissingStarkKeyYCoordinate\<close> and nothing has left the client.
\<close>

theorem register_user_missing_keys:
  "(starkKey = PNone \<and> stark_public_key s = PNone \<longrightarrow>
      register_user e s nonce starkKey stark_public_key_y_coordinate' ethereum_address
        referred_by_affiliate_link country isLpAccount eth_mul_address = ([], Inl MissingStarkKey)) \<and>
   (py_or starkKey (stark_public_key s) \<noteq> PNone \<and>
    stark_public_key_y_coordinate' = PNone \<and> stark_public_key_y_coordinate s = PNone \<longrightarrow>
      register_user e s nonce starkKey stark_public_key_y_coordinate' ethereum_address
        referred_by_affiliate_link country isLpAccount eth_mul_address =
        ([], Inl MissingStarkKeyYCoordinate))"
  by (simp add: register_user_def py_or_def)

theorem register_user_missing_keys_witness:
  "register_user example_env blank_client (PStr ''n'') PNone (PStr ''0x2'') PNone PNone PNone PNone PNone =
     ([], Inl MissingStarkKey) \<and>
   py_or (PStr ''0x1'') (stark_public_key blank_client) \<noteq> PNone \<and>
   register_user example_env blank_client (PStr ''n'') (PStr ''0x1'') PNone PNone PNone PNone PNone PNone =
     ([], Inl MissingStarkKeyYCoordinate)"
proof -
  have b: "stark_public_key blank_client = PNone" "stark_public_key_y_coordinate blank_client = PNone"
    by (simp_all add: blank_client_def)
  have k: "py_or (PStr ''0x1'') (stark_public_key blank_client) \<noteq> PNone"
    by (simp add: py_or_def)
  show ?thesis
    using register_user_missing_keys [of PNone blank_client example_env "PStr ''n''" "PStr ''0x2''"
            PNone PNone PNone PNone PNone]
          register_user_missing_keys [of "PStr ''0x1''" blank_client example_env "PStr ''n''" PNone
            PNone PNone PNone PNone PNone]
          b k
    by simp
qed

text \<open>
  C5 as stated fails when both are missing: the stark key is checked first, so the
  failure is \<open>MissingStarkKey\<close> although no y-coordinate is available either.
\<close>

theorem register_user_both_missing:
  "register_user example_env blank_client (PStr ''n'') PNone PNone PNone PNone PNone PNone PNone =
     ([], Inl MissingStarkKey)"
  by (simp add: register_user_def blank_client_def py_or_def)

section \<open>Key derivation\<close>

text \<open>A digest of \<open>n\<close> bytes is below \<open>256 ^ n\<close>; shifted right by 5 bits, 32 bytes fit 251 bits.\<close>

lemma be_nat_aux: "foldl (\<lambda>a b. 256 * a + unat (b :: 8 word)) acc bs < (acc + 1) * 256 ^ length bs"
proof (induction bs arbitrary: acc)
  case Nil
  then show ?case by simp
next
  case (Cons b bs)
  have "unat b < 256" using unsigned_less [of b] by simp
  then have le: "256 * acc + unat b + 1 \<le> (acc + 1) * 256" by simp
  have "foldl (\<lambda>a b. 256 * a + unat b) (256 * acc + unat b) bs
          < (256 * acc + unat b + 1) * 256 ^ length bs"
    by (rule Cons.IH)
  also have "\<dots> \<le> ((acc + 1) * 256) * 256 ^ length bs"
    using le by (rule mult_le_mono1)
  finally show ?case by (simp add: algebra_simps)
qed

lemma be_nat_bound: "be_nat bs < 256 ^ length bs"
  using be_nat_aux [of 0 bs] by (simp add: be_nat_def)

lemma private_scalar_bound:
  assumes "length digest = 32"
  shows "drop_bit 5 (int (be_nat digest)) < 2 ^ 251"
proof -
  have "be_nat digest < 256 ^ 32" using be_nat_bound [of digest] assms by simp
  then have "be_nat digest < 2 ^ 256" by simp
  then have "be_nat digest div 2 ^ 5 < 2 ^ 251" by simp
  then have "int (be_nat digest div 2 ^ 5) < 2 ^ 251" by (metis of_nat_less_numeral_power_cancel_iff)
  then show ?thesis by (simp add: drop_bit_eq_div zdiv_int)
qed

lemma derive_stark_key_steps:
  assumes "starkeySigner_sign_message e (py_or ethereum_address (default_address s))
             OFF_CHAIN_KEY_DERIVATION_ACTION = Inr signature"
      and "int_base16 signature = Some signature_int"
      and "solidityKeccak e [''uint256''] [signature_int] = Inr digest"
      and "digest \<noteq> []"
      and "private_key_to_public_key_pair_hex e (hex (drop_bit 5 (int (be_nat digest)))) = Inr (x, y)"
  shows "snd (derive_stark_key e s ethereum_address) =
           Inr \<lparr>public_key = x, public_key_y_coordinate = y,
                private_key = hex (drop_bit 5 (int (be_nat digest)))\<rparr>"
  using assms int_base16_bytes_hex [of digest]
  by (simp add: derive_stark_key_def Let_def)

text \<open>
  C2. For a wallet signature that is valid hexadecimal, \<^verbatim>\<open>derive_stark_key\<close> reads it
  as a base-16 integer, hashes that integer as a \<^verbatim>\<open>uint256\<close> with Keccak, reads the
  digest as a big-endian integer and shifts it right by exactly 5 bits, and returns
  that private scalar as a hexadecimal string together with the two coordinates the
  curve library computes from it. The hash and the curve library are collaborators;
  the statement is for the calls on which they return.
\<close>

theorem derive_stark_key_pipeline:
  assumes "starkeySigner_sign_message e (py_or ethereum_address (default_address s))
             OFF_CHAIN_KEY_DERIVATION_ACTION = Inr signature"
      and "valid_hexadecimal signature"
      and "solidityKeccak e [''uint256''] [int (hex_value signature)] = Inr digest"
      and "length digest = 32"
      and "private_key_to_public_key_pair_hex e (hex (drop_bit 5 (int (be_nat digest)))) = Inr (x, y)"
  shows "int_base16 signature = Some (int (hex_value signature)) \<and>
         int_base16 (bytes_hex digest) = Some (int (be_nat digest)) \<and>
         snd (derive_stark_key e s ethereum_address) =
           Inr \<lparr>public_key = x, public_key_y_coordinate = y,
                private_key = hex (drop_bit 5 (int (be_nat digest)))\<rparr> \<and>
         int_base16 (hex (drop_bit 5 (int (be_nat digest)))) = Some (drop_bit 5 (int (be_nat digest))) \<and>
         drop_bit 5 (int (be_nat digest)) < 2 ^ 251"
proof -
  have p: "int_base16 signature = Some (int (hex_value signature))"
    using assms(2) by (rule int_base16_plain)
  have d: "digest \<noteq> []" using assms(4) by auto
  have nn: "0 \<le> drop_bit 5 (int (be_nat digest))" by simp
  show ?thesis
    using p int_base16_bytes_hex [OF d] derive_stark_key_steps [OF assms(1) p assms(3) d assms(5)]
      int_base16_hex [OF nn] private_scalar_bound [OF assms(4)]
    by simp
qed

theorem derive_stark_key_pipeline_witness:
  "starkeySigner_sign_message example_env (py_or PNone (default_address example_client))
     OFF_CHAIN_KEY_DERIVATION_ACTION = Inr ''0x1ff'' \<and>
   valid_hexadecimal ''0x1ff'' \<and>
   hex_value ''0x1ff'' = 511 \<and>
   solidityKeccak example_env [''uint256''] [511] = Inr (replicate 31 0 @ [255]) \<and>
   be_nat (replicate 31 0 @ [255]) = 255 \<and>
   private_key_to_public_key_pair_hex example_env ''0x7'' = Inr (''0x7a'', ''0x7b'') \<and>
   snd (derive_stark_key example_env example_client PNone) =
     Inr \<lparr>public_key = ''0x7a'', public_key_y_coordinate = ''0x7b'', private_key = ''0x7''\<rparr>"
proof -
  have g: "starkeySigner_sign_message example_env (py_or PNone (default_address example_client))
             OFF_CHAIN_KEY_DERIVATION_ACTION = Inr ''0x1ff''"
    by (simp add: example_env_def)
  have v: "valid_hexadecimal ''0x1ff''" by code_simp
  have h: "hex_value ''0x1ff'' = 511" by code_simp
  have k: "solidityKeccak example_env [''uint256''] [int (hex_value ''0x1ff'')] = Inr (replicate 31 0 @ [255])"
    by (simp add: h example_env_def)
  have l: "length (replicate 31 0 @ [255 :: 8 word]) = 32" by simp
  have b: "be_nat (replicate 31 0 @ [255]) = 255" by code_simp
  have x: "hex (drop_bit 5 (int (be_nat (replicate 31 0 @ [255])))) = ''0x7''"
    by code_simp
  have q: "private_key_to_public_key_pair_hex example_env
             (hex (drop_bit 5 (int (be_nat (replicate 31 0 @ [255]))))) = Inr (''0x7a'', ''0x7b'')"
    by (simp add: x example_env_def)
  show ?thesis
    using derive_stark_key_pipeline [OF g v k l q] g v h k b x q by simp
qed

text \<open>
  C6, as the code has it. \<^verbatim>\<open>derive_stark_key\<close> fails with \<open>MalformedSignature\<close> exactly
  when \<^verbatim>\<open>int(signature, 16)\<close> rejects the string the wallet returned, and then no key
  pair is returned. No length is checked: valid hexadecimal of any length is read.
\<close>

theorem derive_stark_key_malformed:
  assumes "starkeySigner_sign_message e (py_or ethereum_address (default_address s))
             OFF_CHAIN_KEY_DERIVATION_ACTION = Inr signature"
  shows "(snd (derive_stark_key e s ethereum_address) = Inl MalformedSignature
            \<longleftrightarrow> int_base16 signature = None) \<and>
         (int_base16 signature = None \<longrightarrow>
            (\<forall>pair. snd (derive_stark_key e s ethereum_address) \<noteq> Inr pair)) \<and>
         (valid_hexadecimal signature \<longrightarrow>
            snd (derive_stark_key e s ethereum_address) \<noteq> Inl MalformedSignature)"
proof -
  have iff: "snd (derive_stark_key e s ethereum_address) = Inl MalformedSignature
               \<longleftrightarrow> int_base16 signature = None"
    using assms
    by (auto simp: derive_stark_key_def Let_def split: sum.splits option.splits prod.splits)
  moreover have "valid_hexadecimal signature \<longrightarrow> int_base16 signature \<noteq> None"
    using int_base16_plain [of signature] by simp
  ultimately show ?thesis by auto
qed

theorem derive_stark_key_malformed_witness:
  "starkeySigner_sign_message (wallet_returning ''0x1g'') (py_or PNone (default_address example_client))
     OFF_CHAIN_KEY_DERIVATION_ACTION = Inr ''0x1g'' \<and>
   int_base16 ''0x1g'' = None \<and>
   snd (derive_stark_key (wallet_returning ''0x1g'') example_client PNone) = Inl MalformedSignature"
proof -
  have g: "starkeySigner_sign_message (wallet_returning ''0x1g'') (py_or PNone (default_address example_client))
             OFF_CHAIN_KEY_DERIVATION_ACTION = Inr ''0x1g''"
    by (simp add: wallet_returning_def)
  have n: "int_base16 ''0x1g'' = None" by code_simp
  show ?thesis
    using derive_stark_key_malformed [OF g] g n by simp
qed

text \<open>
  C6 as stated fails: two signatures of different lengths, both valid hexadecimal,
  are both turned into a key pair, whatever the expected length is.
\<close>

theorem derive_stark_key_no_length_check:
  "snd (derive_stark_key (wallet_returning ''0x1'') example_client PNone) =
     Inr \<lparr>public_key = ''0x0a'', public_key_y_coordinate = ''0x0b'', private_key = ''0x0''\<rparr> \<and>
   snd (derive_stark_key (wallet_returning ''0x11'') example_client PNone) =
     Inr \<lparr>public_key = ''0x0a'', public_key_y_coordinate = ''0x0b'', private_key = ''0x0''\<rparr> \<and>
   length ''0x1'' \<noteq> length ''0x11''"
  by code_simp

text \<open>
  C8. Two runs of the derivation on the same wallet signature string return the same
  private key and public coordinates, whatever the client, the address and the rest
  of the environment are, as long as the hash and the curve library are the same.
\<close>

theorem derive_stark_key_deterministic:
  assumes "starkeySigner_sign_message e1 (py_or a1 (default_address s1))
             OFF_CHAIN_KEY_DERIVATION_ACTION = Inr signature"
      and "starkeySigner_sign_message e2 (py_or a2 (default_address s2))
             OFF_CHAIN_KEY_DERIVATION_ACTION = Inr signature"
      and "solidityKeccak e1 = solidityKeccak e2"
      and "private_key_to_public_key_pair_hex e1 = private_key_to_public_key_pair_hex e2"
  shows "snd (derive_stark_key e1 s1 a1) = snd (derive_stark_key e2 s2 a2)"
  using assms
  by (simp add: derive_stark_key_def Let_def split: sum.splits option.splits prod.splits)

theorem derive_stark_key_deterministic_witness:
  "starkeySigner_sign_message example_env (py_or PNone (default_address example_client))
     OFF_CHAIN_KEY_DERIVATION_ACTION = Inr ''0x1ff'' \<and>
   starkeySigner_sign_message (wallet_returning ''0x1ff'') (py_or (PStr ''0xdef'') (default_address blank_client))
     OFF_CHAIN_KEY_DERIVATION_ACTION = Inr ''0x1ff'' \<and>
   solidityKeccak example_env = solidityKeccak (wallet_returning ''0x1ff'') \<and>
   private_key_to_public_key_pair_hex example_env =
     private_key_to_public_key_pair_hex (wallet_returning ''0x1ff'') \<and>
   snd (derive_stark_key example_env example_client PNone) =
     snd (derive_stark_key (wallet_returning ''0x1ff'') blank_client (PStr ''0xdef''))"
proof -
  have g1: "starkeySigner_sign_message example_env (py_or PNone (default_address example_client))
              OFF_CHAIN_KEY_DERIVATION_ACTION = Inr ''0x1ff''"
    by (simp add: example_env_def)
  have g2: "starkeySigner_sign_message (wallet_returning ''0x1ff'')
              (py_or (PStr ''0xdef'') (default_address blank_client))
              OFF_CHAIN_KEY_DERIVATION_ACTION = Inr ''0x1ff''"
    by (simp add: wallet_returning_def)
  have k: "solidityKeccak example_env = solidityKeccak (wallet_returning ''0x1ff'')"
    by (simp add: wallet_returning_def)
  have p: "private_key_to_public_key_pair_hex example_env =
             private_key_to_public_key_pair_hex (wallet_returning ''0x1ff'')"
    by (simp add: wallet_returning_def)
  show ?thesis
    using derive_stark_key_deterministic [OF g1 g2 k p] g1 g2 k p by simp
qed

end
